theory Spec2Isabelle
  imports Complex_Main "HOL-Library.Word"
begin

section \<open>JavaScript values used by the structure store\<close>

text \<open>
  A JavaScript number is modelled as a real number, one of the two infinities, or NaN.
  Finite arithmetic is exact: the rounding of IEEE doubles (and of the 32-bit floats in
  the coordinate columns) and the sign of zero are not modelled. NaN and the infinities
  propagate as IEEE 754 prescribes, which is what the branches of the code below test.
\<close>

datatype jsnum = Number real | PosInfinity | NegInfinity | NaN

datatype error = TypeError

fun isNaN :: "jsnum \<Rightarrow> bool" where
  "isNaN NaN = True"
| "isNaN _ = False"

fun js_neg :: "jsnum \<Rightarrow> jsnum" where
  "js_neg (Number a) = Number (- a)"
| "js_neg PosInfinity = NegInfinity"
| "js_neg NegInfinity = PosInfinity"
| "js_neg NaN = NaN"

fun js_add :: "jsnum \<Rightarrow> jsnum \<Rightarrow> jsnum" where
  "js_add NaN _ = NaN"
| "js_add _ NaN = NaN"
| "js_add (Number a) (Number b) = Number (a + b)"
| "js_add (Number a) PosInfinity = PosInfinity"
| "js_add (Number a) NegInfinity = NegInfinity"
| "js_add PosInfinity (Number b) = PosInfinity"
| "js_add NegInfinity (Number b) = NegInfinity"
| "js_add PosInfinity PosInfinity = PosInfinity"
| "js_add NegInfinity NegInfinity = NegInfinity"
| "js_add PosInfinity NegInfinity = NaN"
| "js_add NegInfinity PosInfinity = NaN"

definition js_sub :: "jsnum \<Rightarrow> jsnum \<Rightarrow> jsnum" where
  "js_sub a b = js_add a (js_neg b)"

text \<open>The sign of an infinite product: \<open>inf_signed True\<close> is \<open>+Infinity\<close>.\<close>

definition inf_signed :: "bool \<Rightarrow> jsnum" where
  "inf_signed pos = (if pos then PosInfinity else NegInfinity)"

fun js_mul :: "jsnum \<Rightarrow> jsnum \<Rightarrow> jsnum" where
  "js_mul NaN _ = NaN"
| "js_mul _ NaN = NaN"
| "js_mul (Number a) (Number b) = Number (a * b)"
| "js_mul (Number a) PosInfinity = (if a = 0 then NaN else inf_signed (0 < a))"
| "js_mul (Number a) NegInfinity = (if a = 0 then NaN else inf_signed (a < 0))"
| "js_mul PosInfinity (Number b) = (if b = 0 then NaN else inf_signed (0 < b))"
| "js_mul NegInfinity (Number b) = (if b = 0 then NaN else inf_signed (b < 0))"
| "js_mul PosInfinity PosInfinity = PosInfinity"
| "js_mul NegInfinity NegInfinity = PosInfinity"
| "js_mul PosInfinity NegInfinity = NegInfinity"
| "js_mul NegInfinity PosInfinity = NegInfinity"

text \<open>\<open>a < b\<close> on JavaScript numbers: false as soon as one side is NaN.\<close>

fun js_lt :: "jsnum \<Rightarrow> jsnum \<Rightarrow> bool" where
  "js_lt (Number a) (Number b) = (a < b)"
| "js_lt (Number a) PosInfinity = True"
| "js_lt NegInfinity (Number b) = True"
| "js_lt NegInfinity PosInfinity = True"
| "js_lt _ _ = False"

definition js_gt :: "jsnum \<Rightarrow> jsnum \<Rightarrow> bool" where
  "js_gt a b = js_lt b a"

text \<open>\<open>Math.sqrt\<close>.\<close>

fun js_sqrt :: "jsnum \<Rightarrow> jsnum" where
  "js_sqrt (Number a) = (if a < 0 then NaN else Number (sqrt a))"
| "js_sqrt PosInfinity = PosInfinity"
| "js_sqrt NegInfinity = NaN"
| "js_sqrt NaN = NaN"

text \<open>
  A read \<open>array[i]\<close> of a typed array column: \<open>undefined\<close> (here \<open>None\<close>) when the index is
  itself \<open>undefined\<close> or lies beyond the array.
\<close>

definition typed_get :: "'a list \<Rightarrow> nat option \<Rightarrow> 'a option" where
  "typed_get arr i =
     (case i of None \<Rightarrow> None
      | Some k \<Rightarrow> if k < length arr then Some (arr ! k) else None)"

text \<open>An operand of an arithmetic operator is converted to a number: \<open>undefined\<close> becomes NaN.\<close>

definition toNumber :: "jsnum option \<Rightarrow> jsnum" where
  "toNumber v = (case v of None \<Rightarrow> NaN | Some a \<Rightarrow> a)"

section \<open>Stores and interned types\<close>

text \<open>
  The columns of the atom store that the atom proxy reads. The alternate-location column
  holds unsigned bytes; the proxy tests whether the store has that column at all.
\<close>

record AtomStore =
  atom_count :: nat
  atom_residueIndex :: "nat list"
  atom_atomTypeId :: "nat list"
  atom_x :: "jsnum list"
  atom_y :: "jsnum list"
  atom_z :: "jsnum list"
  atom_altloc :: "8 word list option"

record ResidueStore =
  residue_count :: nat
  residue_residueTypeId :: "nat list"
  residue_atomOffset :: "nat list"

datatype MoleculeType =
  UnknownType | ProteinType | RnaType | DnaType | WaterType | IonType | SaccharideType

datatype BackboneType =
  UnknownBackboneType | ProteinBackboneType | RnaBackboneType | DnaBackboneType
  | CgProteinBackboneType | CgRnaBackboneType | CgDnaBackboneType

record AtomType =
  element :: string
  atomname :: string
  vdw :: jsnum
  covalent :: jsnum

record ResidueType =
  resname :: string
  hetero :: nat
  moleculeType :: MoleculeType
  backboneIndexList :: "nat list"
  backboneType :: BackboneType

text \<open>
  Modelled from the spec: the type interners \<open>AtomMap\<close> and \<open>ResidueMap\<close> (their files
  are not part of the sources at hand). \<open>get(id)\<close> returns the descriptor stored under
  that id; an id that was never allocated, or an \<open>undefined\<close> id, yields \<open>undefined\<close>.
\<close>

type_synonym AtomMap = "AtomType list"
type_synonym ResidueMap = "ResidueType list"

definition AtomMap_get :: "AtomMap \<Rightarrow> nat option \<Rightarrow> AtomType option" where
  "AtomMap_get m i = typed_get m i"

definition ResidueMap_get :: "ResidueMap \<Rightarrow> nat option \<Rightarrow> ResidueType option" where
  "ResidueMap_get m i = typed_get m i"

section \<open>The atom proxy\<close>

text \<open>
  \<open>AtomProxy( structure, index )\<close> keeps the stores and interners of its structure and a
  current index; the index is \<open>undefined\<close> when the proxy was made without one. The
  back reference to the structure and the chain store are read by none of the methods
  below and are left out.
\<close>

record AtomProxy =
  ap_residueStore :: ResidueStore
  ap_atomStore :: AtomStore
  ap_residueMap :: ResidueMap
  ap_atomMap :: AtomMap
  ap_index :: "nat option"

definition ap_residueIndex :: "AtomProxy \<Rightarrow> nat option" where
  "ap_residueIndex self = typed_get (atom_residueIndex (ap_atomStore self)) (ap_index self)"

definition ap_residueType :: "AtomProxy \<Rightarrow> ResidueType option" where
  "ap_residueType self =
     ResidueMap_get (ap_residueMap self)
       (typed_get (residue_residueTypeId (ap_residueStore self)) (ap_residueIndex self))"

definition ap_atomType :: "AtomProxy \<Rightarrow> AtomType option" where
  "ap_atomType self =
     AtomMap_get (ap_atomMap self)
       (typed_get (atom_atomTypeId (ap_atomStore self)) (ap_index self))"

text \<open>Reading a property of \<open>undefined\<close> throws a \<open>TypeError\<close>.\<close>

definition ap_covalent :: "AtomProxy \<Rightarrow> error + jsnum" where
  "ap_covalent self =
     (case ap_atomType self of None \<Rightarrow> Inl TypeError | Some t \<Rightarrow> Inr (covalent t))"

definition ap_x :: "AtomProxy \<Rightarrow> jsnum option" where
  "ap_x self = typed_get (atom_x (ap_atomStore self)) (ap_index self)"

definition ap_y :: "AtomProxy \<Rightarrow> jsnum option" where
  "ap_y self = typed_get (atom_y (ap_atomStore self)) (ap_index self)"

definition ap_z :: "AtomProxy \<Rightarrow> jsnum option" where
  "ap_z self = typed_get (atom_z (ap_atomStore self)) (ap_index self)"

definition isCg :: "AtomProxy \<Rightarrow> error + bool" where
  "isCg self =
     (case ap_residueType self of
        None \<Rightarrow> Inl TypeError
      | Some t \<Rightarrow>
          Inr (backboneType t = CgProteinBackboneType \<or>
               backboneType t = CgRnaBackboneType \<or>
               backboneType t = CgDnaBackboneType))"

text \<open>
  The squared distance both \<open>distanceTo\<close> and \<open>connectedTo\<close> compute, each from the
  coordinate columns of the two proxies' own atom stores.
\<close>

definition distSquared :: "AtomProxy \<Rightarrow> AtomProxy \<Rightarrow> jsnum" where
  "distSquared self atom =
     (let x = js_sub (toNumber (ap_x self)) (toNumber (ap_x atom));
          y = js_sub (toNumber (ap_y self)) (toNumber (ap_y atom));
          z = js_sub (toNumber (ap_z self)) (toNumber (ap_z atom))
      in js_add (js_add (js_mul x x) (js_mul y y)) (js_mul z z))"

definition distanceTo :: "AtomProxy \<Rightarrow> AtomProxy \<Rightarrow> jsnum" where
  "distanceTo self atom = js_sqrt (distSquared self atom)"

text \<open>
  The alternate-location check at the head of \<open>connectedTo\<close>: entered only when both
  stores have the column, it reads the two byte codes and rejects the pair unless one of
  them is 0 or 32 or the two are identical.
\<close>

definition altlocBlocks :: "AtomProxy \<Rightarrow> AtomProxy \<Rightarrow> bool" where
  "altlocBlocks self atom =
     (case atom_altloc (ap_atomStore self) of
        None \<Rightarrow> False
      | Some tal \<Rightarrow>
          (case atom_altloc (ap_atomStore atom) of
             None \<Rightarrow> False
           | Some aal \<Rightarrow>
               (let ta = typed_get tal (ap_index self);
                    aa = typed_get aal (ap_index atom)
                in \<not> (ta = Some 0 \<or> aa = Some 0 \<or> ta = Some 32 \<or> aa = Some 32 \<or> ta = aa))))"

definition connectedTo :: "AtomProxy \<Rightarrow> AtomProxy \<Rightarrow> error + bool" where
  "connectedTo self atom =
     (if altlocBlocks self atom then Inr False
      else
        let distSq = distSquared self atom in
        (case (if js_lt distSq (Number 64) then isCg self else Inr False) of
           Inl e \<Rightarrow> Inl e
         | Inr True \<Rightarrow> Inr True
         | Inr False \<Rightarrow>
             if isNaN distSq then Inr False
             else
               (case ap_covalent self of
                  Inl e \<Rightarrow> Inl e
                | Inr c1 \<Rightarrow>
                    (case ap_covalent atom of
                       Inl e \<Rightarrow> Inl e
                     | Inr c2 \<Rightarrow>
                         (let d = js_add c1 c2;
                              d1 = js_add d (Number (3 / 10));
                              d2 = js_sub d (Number (1 / 2))
                          in Inr (js_lt distSq (js_mul d1 d1) \<and> js_gt distSq (js_mul d2 d2)))))))"

section \<open>Vectors\<close>

text \<open>
  The vectors of the vector library, as far as the structure uses them: componentwise sum
  and difference of two objects with \<open>x\<close>, \<open>y\<close>, \<open>z\<close>, scaling by a (finite) factor, the dot
  product, \<open>toArray( array, offset )\<close>, and the center of a box given by its two corners.
  An atom proxy is used as such an object through its coordinate getters.
\<close>

type_synonym vec3 = "jsnum \<times> jsnum \<times> jsnum"


definition addVectors :: "vec3 \<Rightarrow> vec3 \<Rightarrow> vec3" where
  "addVectors a b =
     (case a of (ax, ay, az) \<Rightarrow> case b of (bx, by, bz) \<Rightarrow> (js_add ax bx, js_add ay by, js_add az bz))"

definition subVectors :: "vec3 \<Rightarrow> vec3 \<Rightarrow> vec3" where
  "subVectors a b =
     (case a of (ax, ay, az) \<Rightarrow> case b of (bx, by, bz) \<Rightarrow> (js_sub ax bx, js_sub ay by, js_sub az bz))"

definition multiplyScalar :: "vec3 \<Rightarrow> jsnum \<Rightarrow> vec3" where
  "multiplyScalar v scalar =
     (case v of (vx, vy, vz) \<Rightarrow> (js_mul vx scalar, js_mul vy scalar, js_mul vz scalar))"



definition Box3_center :: "vec3 \<times> vec3 \<Rightarrow> vec3" where
  "Box3_center box = (case box of (bmin, bmax) \<Rightarrow> multiplyScalar (addVectors bmin bmax) (Number (1 / 2)))"

section \<open>Bit sets\<close>

text \<open>
  Modelled from the spec: the class \<open>Bitset\<close> (its file is not part of the sources at
  hand). A bit set has a capacity fixed at construction and one bit per row index; a new
  one has no bit set (the structure fills a new bit set by adding the rows it visits).
  \<open>add_unsafe(i)\<close> sets bit \<open>i\<close>, \<open>has(i)\<close> tests it, \<open>set_all(b)\<close> fills or clears all
  bits, \<open>size()\<close> is the population count, \<open>forEach(fn)\<close> calls \<open>fn(index, ordinal)\<close> on
  the set bits in ascending order, and \<open>intersection(other)\<close> is the bitwise AND over the
  receiver's capacity.
\<close>

type_synonym Bitset = "bool list"

definition new_Bitset :: "nat \<Rightarrow> Bitset" where
  "new_Bitset n = replicate n False"

definition Bitset_add_unsafe :: "Bitset \<Rightarrow> nat \<Rightarrow> Bitset" where
  "Bitset_add_unsafe bs i = bs[i := True]"

definition Bitset_has :: "Bitset \<Rightarrow> nat \<Rightarrow> bool" where
  "Bitset_has bs i = (i < length bs \<and> bs ! i)"

definition Bitset_set_all :: "Bitset \<Rightarrow> bool \<Rightarrow> Bitset" where
  "Bitset_set_all bs b = replicate (length bs) b"

definition Bitset_indices :: "Bitset \<Rightarrow> nat list" where
  "Bitset_indices bs = filter (\<lambda>i. bs ! i) [0..<length bs]"

definition Bitset_size :: "Bitset \<Rightarrow> nat" where
  "Bitset_size bs = length (Bitset_indices bs)"

fun forEach_from :: "nat list \<Rightarrow> nat \<Rightarrow> (nat \<Rightarrow> nat \<Rightarrow> 'st \<Rightarrow> 'st) \<Rightarrow> 'st \<Rightarrow> 'st" where
  "forEach_from [] i fn st = st"
| "forEach_from (idx # rest) i fn st = forEach_from rest (Suc i) fn (fn idx i st)"

definition Bitset_forEach :: "Bitset \<Rightarrow> (nat \<Rightarrow> nat \<Rightarrow> 'st \<Rightarrow> 'st) \<Rightarrow> 'st \<Rightarrow> 'st" where
  "Bitset_forEach bs fn st = forEach_from (Bitset_indices bs) 0 fn st"

definition Bitset_intersection :: "Bitset \<Rightarrow> Bitset \<Rightarrow> Bitset" where
  "Bitset_intersection bs other = map (\<lambda>i. bs ! i \<and> Bitset_has other i) [0..<length bs]"

section \<open>The structure\<close>

record BondStore =
  bond_count :: nat
  bond_atomIndex1 :: "nat list"
  bond_atomIndex2 :: "nat list"
  bond_bondOrder :: "nat list"

text \<open>
  Modelled from the spec: the residue proxy (its file is not part of the sources at
  hand), a cursor holding the stores of its structure and a current index.
\<close>

record ResidueProxy =
  rp_residueStore :: ResidueStore
  rp_atomStore :: AtomStore
  rp_residueMap :: ResidueMap
  rp_index :: "nat option"

text \<open>
  The fields of \<open>Structure\<close> that the functions below read or write. Proxy objects have an
  identity: they live in two object tables of the structure and are referred to by their
  position there, so that "the same object" is "the same reference". The bounding box is
  kept as its two corners. The registry entry and the \<open>refreshed\<close> signal belong to
  collaborators and hold no state of the structure; they are left out. The
  named-selection dictionary lists its entries in enumeration order.
\<close>

record Structure =
  s_atomSetCache :: "string \<rightharpoonup> Bitset"
  s_atomSetDict :: "(string \<times> Bitset) list"
  s_bondStore :: BondStore
  s_atomStore :: AtomStore
  s_residueStore :: ResidueStore
  s_atomMap :: AtomMap
  s_residueMap :: ResidueMap
  s_atomSet :: "Bitset option"
  s_bondSet :: "Bitset option"
  s_atomCount :: nat
  s_bondCount :: nat
  s_boundingBox :: "vec3 \<times> vec3"
  s_center :: vec3
  s_tmpAtomProxy :: "nat option"
  s_tmpResidueProxy :: "nat option"
  s_atomProxyObjects :: "AtomProxy list"
  s_residueProxyObjects :: "ResidueProxy list"

definition new_AtomProxy :: "Structure \<Rightarrow> nat option \<Rightarrow> AtomProxy" where
  "new_AtomProxy s index =
     \<lparr>ap_residueStore = s_residueStore s, ap_atomStore = s_atomStore s,
      ap_residueMap = s_residueMap s, ap_atomMap = s_atomMap s, ap_index = index\<rparr>"

definition new_ResidueProxy :: "Structure \<Rightarrow> nat option \<Rightarrow> ResidueProxy" where
  "new_ResidueProxy s index =
     \<lparr>rp_residueStore = s_residueStore s, rp_atomStore = s_atomStore s,
      rp_residueMap = s_residueMap s, rp_index = index\<rparr>"

text \<open>
  \<open>getAtomProxy( index, tmp )\<close> and \<open>getResidueProxy( index, tmp )\<close> return a reference and
  the structure, in which a newly made proxy has been entered.
\<close>

definition getAtomProxy :: "nat option \<Rightarrow> bool \<Rightarrow> Structure \<Rightarrow> nat \<times> Structure" where
  "getAtomProxy index tmp s =
     (if tmp then
        (case s_tmpAtomProxy s of
           None \<Rightarrow>
             (length (s_atomProxyObjects s),
              s\<lparr>s_atomProxyObjects := s_atomProxyObjects s @ [new_AtomProxy s index],
                s_tmpAtomProxy := Some (length (s_atomProxyObjects s))\<rparr>)
         | Some r \<Rightarrow> (r, s))
      else
        (length (s_atomProxyObjects s),
         s\<lparr>s_atomProxyObjects := s_atomProxyObjects s @ [new_AtomProxy s index]\<rparr>))"

definition getResidueProxy :: "nat option \<Rightarrow> bool \<Rightarrow> Structure \<Rightarrow> nat \<times> Structure" where
  "getResidueProxy index tmp s =
     (if tmp then
        (case s_tmpResidueProxy s of
           None \<Rightarrow>
             (length (s_residueProxyObjects s),
              s\<lparr>s_residueProxyObjects := s_residueProxyObjects s @ [new_ResidueProxy s index],
                s_tmpResidueProxy := Some (length (s_residueProxyObjects s))\<rparr>)
         | Some r \<Rightarrow> (r, s))
      else
        (length (s_residueProxyObjects s),
         s\<lparr>s_residueProxyObjects := s_residueProxyObjects s @ [new_ResidueProxy s index]\<rparr>))"

text \<open>
  \<open>getBondSet\<close>. The bond proxy reads the endpoint columns of the bond store at its
  index (modelled from the spec: the bond proxy's file is not part of the sources at
  hand). The store keeps its count within its columns; a row beyond a column has no
  endpoint to test and is not added.
\<close>

definition bondEndpointsIn :: "Bitset \<Rightarrow> BondStore \<Rightarrow> nat \<Rightarrow> bool" where
  "bondEndpointsIn as bst i =
     (case typed_get (bond_atomIndex1 bst) (Some i) of
        None \<Rightarrow> False
      | Some a1 \<Rightarrow>
          (case typed_get (bond_atomIndex2 bst) (Some i) of
             None \<Rightarrow> False
           | Some a2 \<Rightarrow> Bitset_has as a1 \<and> Bitset_has as a2))"

function getBondSet_loop :: "Bitset \<Rightarrow> BondStore \<Rightarrow> nat \<Rightarrow> nat \<Rightarrow> Bitset \<Rightarrow> Bitset" where
  "getBondSet_loop as bst i n bs =
     (if i < n then
        getBondSet_loop as bst (Suc i) n
          (if bondEndpointsIn as bst i then Bitset_add_unsafe bs i else bs)
      else bs)"
  by pat_completeness auto
termination
  by (relation "measure (\<lambda>(as, bst, i, n, bs). n - i)") auto

declare getBondSet_loop.simps [simp del]

definition getBondSet :: "Structure \<Rightarrow> Bitset" where
  "getBondSet s =
     (let n = bond_count (s_bondStore s); bs = new_Bitset n in
      case s_atomSet s of
        Some as \<Rightarrow> getBondSet_loop as (s_bondStore s) 0 n bs
      | None \<Rightarrow> Bitset_set_all bs True)"

text \<open>
  The argument of \<open>getAtomSet\<close>: \<open>false\<close>, \<open>true\<close>, a selection object (its string and,
  when it has one, its test), or nothing.
\<close>

record Selection =
  sel_string :: string
  sel_test :: "(AtomProxy \<Rightarrow> bool) option"

datatype SelectionArg = SelFalse | SelTrue | SelObject Selection | SelUndefined

text \<open>
  Modelled from the spec: \<open>eachAtom\<close> under a selection, which descends through the model
  proxy (not part of the sources at hand): it visits exactly the atoms that pass the
  selection's test, in ascending order.
\<close>

definition eachAtom_selected :: "(AtomProxy \<Rightarrow> bool) \<Rightarrow> Structure \<Rightarrow> nat list" where
  "eachAtom_selected test s =
     filter (\<lambda>i. test (new_AtomProxy s (Some i))) [0..<atom_count (s_atomStore s)]"

definition getAtomSet :: "SelectionArg \<Rightarrow> Structure \<Rightarrow> Bitset \<times> Structure" where
  "getAtomSet selection s =
     (let n = atom_count (s_atomStore s);
          all = (Bitset_set_all (new_Bitset n) True, s) in
      case selection of
        SelFalse \<Rightarrow> (new_Bitset n, s)
      | SelTrue \<Rightarrow> all
      | SelUndefined \<Rightarrow> all
      | SelObject sel \<Rightarrow>
          (case sel_test sel of
             None \<Rightarrow> all
           | Some test \<Rightarrow>
               (case s_atomSetCache s (sel_string sel) of
                  Some as \<Rightarrow> (as, s)
                | None \<Rightarrow>
                    (let as = fold (\<lambda>i bs. Bitset_add_unsafe bs i) (eachAtom_selected test s)
                                (new_Bitset n)
                     in (as, s\<lparr>s_atomSetCache := (s_atomSetCache s)(sel_string sel \<mapsto> as)\<rparr>)))))"

text \<open>
  The atoms \<open>eachAtom\<close> visits: those passing the test when the argument is a selection
  object with a test, else all rows of the atom store in ascending order.
\<close>

definition eachAtom :: "SelectionArg \<Rightarrow> Structure \<Rightarrow> nat list" where
  "eachAtom selection s =
     (case selection of
        SelObject sel \<Rightarrow>
          (case sel_test sel of
             Some test \<Rightarrow> eachAtom_selected test s
           | None \<Rightarrow> [0..<atom_count (s_atomStore s)])
      | _ \<Rightarrow> [0..<atom_count (s_atomStore s)])"

text \<open>
  \<open>getBoundingBox\<close>: the callback lowers the minima and raises the maxima, starting from
  \<open>+Infinity\<close> and \<open>-Infinity\<close>; a comparison with an \<open>undefined\<close> coordinate is false.
\<close>

definition boundingBox_each :: "AtomProxy \<Rightarrow> vec3 \<times> vec3 \<Rightarrow> vec3 \<times> vec3" where
  "boundingBox_each ap box =
     (case box of
        ((minX, minY, minZ), (maxX, maxY, maxZ)) \<Rightarrow>
          (let x = toNumber (ap_x ap); y = toNumber (ap_y ap); z = toNumber (ap_z ap)
           in ((if js_lt x minX then x else minX,
                if js_lt y minY then y else minY,
                if js_lt z minZ then z else minZ),
               (if js_gt x maxX then x else maxX,
                if js_gt y maxY then y else maxY,
                if js_gt z maxZ then z else maxZ))))"

definition getBoundingBox :: "SelectionArg \<Rightarrow> Structure \<Rightarrow> vec3 \<times> vec3" where
  "getBoundingBox selection s =
     fold (\<lambda>i. boundingBox_each ((new_AtomProxy s None)\<lparr>ap_index := Some i\<rparr>))
       (eachAtom selection s)
       ((PosInfinity, PosInfinity, PosInfinity), (NegInfinity, NegInfinity, NegInfinity))"

text \<open>
  \<open>refresh\<close>: the cache is emptied, the atom set and the bond set are recomputed, for
  every entry of the named-selection dictionary a bit set is entered in the cache under
  the entry's name with two underscores in front, and the counts, the bounding box and
  the center are set. (The atom set and the bond set read for the counts are the ones
  just assigned.)
\<close>

definition refresh_named :: "string \<times> Bitset \<Rightarrow> Structure \<Rightarrow> Structure" where
  "refresh_named entry s =
     (case entry of
        (name, as) \<Rightarrow>
          (case getAtomSet SelFalse s of
             (as2, s') \<Rightarrow>
               s'\<lparr>s_atomSetCache := (s_atomSetCache s')(''__'' @ name \<mapsto> Bitset_intersection as2 as)\<rparr>))"

definition refresh :: "Structure \<Rightarrow> Structure" where
  "refresh s =
     (let s1 = s\<lparr>s_atomSetCache := Map.empty\<rparr>;
          s2 = (case getAtomSet SelUndefined s1 of (as, s') \<Rightarrow> s'\<lparr>s_atomSet := Some as\<rparr>);
          s3 = s2\<lparr>s_bondSet := Some (getBondSet s2)\<rparr>;
          s4 = fold refresh_named (s_atomSetDict s3) s3;
          s5 = s4\<lparr>s_atomCount := (case s_atomSet s4 of Some as \<Rightarrow> Bitset_size as | None \<Rightarrow> 0),
                  s_bondCount := (case s_bondSet s4 of Some bs \<Rightarrow> Bitset_size bs | None \<Rightarrow> 0)\<rparr>;
          s6 = s5\<lparr>s_boundingBox := getBoundingBox SelUndefined s5\<rparr>
      in s6\<lparr>s_center := Box3_center (s_boundingBox s6)\<rparr>)"

section \<open>Bulk extraction\<close>

text \<open>
  A \<open>Float32Array( n )\<close> is a list of \<open>n\<close> zeros. Writing beyond its end changes nothing
  (\<open>list_update\<close> behaves so too), and writing \<open>undefined\<close> stores NaN.
\<close>

definition Float32Array :: "nat \<Rightarrow> jsnum list" where
  "Float32Array n = replicate n (Number 0)"

definition positionToArray :: "AtomProxy \<Rightarrow> jsnum list \<Rightarrow> nat \<Rightarrow> jsnum list" where
  "positionToArray self array offset =
     array[offset + 0 := toNumber (ap_x self),
           offset + 1 := toNumber (ap_y self),
           offset + 2 := toNumber (ap_z self)]"

text \<open>\<open>defaults( value, defaultValue )\<close>: the value unless it is \<open>undefined\<close>.\<close>

definition defaults :: "'a option \<Rightarrow> 'a option \<Rightarrow> 'a option" where
  "defaults v d = (case v of None \<Rightarrow> d | Some a \<Rightarrow> Some a)"

text \<open>
  The channels a caller asks for: \<open>!what || what.channel\<close> holds when \<open>what\<close> is absent or
  has the channel's flag.
\<close>

record What =
  what_position :: bool
  what_color :: bool
  what_pickingColor :: bool
  what_radius :: bool
  what_index :: bool

definition wanted :: "What option \<Rightarrow> (What \<Rightarrow> bool) \<Rightarrow> bool" where
  "wanted what channel = (case what of None \<Rightarrow> True | Some w \<Rightarrow> channel w)"

text \<open>
  The colour makers and the radius factory are made from the parameters by collaborators
  outside the sources at hand; the parameters carry them as functions:
  \<open>atomColorToArray( ap, array, offset )\<close> and \<open>atomRadius( ap )\<close>.
\<close>

type_synonym ColorMaker = "AtomProxy \<Rightarrow> jsnum list \<Rightarrow> nat \<Rightarrow> jsnum list"
type_synonym RadiusFactory = "AtomProxy \<Rightarrow> jsnum"

record AtomDataParams =
  p_what :: "What option"
  p_atomSet :: "Bitset option"
  p_colorMaker :: ColorMaker
  p_pickingColorMaker :: ColorMaker
  p_radiusFactory :: RadiusFactory

record AtomData =
  data_position :: "jsnum list option"
  data_color :: "jsnum list option"
  data_pickingColor :: "jsnum list option"
  data_radius :: "jsnum list option"
  data_index :: "jsnum list option"

text \<open>The callback of \<open>atomSet.forEach\<close> in \<open>getAtomData\<close>, on the arrays made so far.\<close>

definition atomData_each :: "AtomDataParams \<Rightarrow> Structure \<Rightarrow> nat \<Rightarrow> nat \<Rightarrow> AtomData \<Rightarrow> AtomData" where
  "atomData_each p s idx i d =
     (let i3 = i * 3;
          ap = (new_AtomProxy s None)\<lparr>ap_index := Some idx\<rparr>
      in d\<lparr>data_position := map_option (\<lambda>position. positionToArray ap position i3) (data_position d),
            data_color := map_option (\<lambda>color. p_colorMaker p ap color i3) (data_color d),
            data_pickingColor :=
              map_option (\<lambda>pickingColor. p_pickingColorMaker p ap pickingColor i3) (data_pickingColor d),
            data_radius := map_option (\<lambda>radius. radius[i := p_radiusFactory p ap]) (data_radius d),
            data_index := map_option (\<lambda>index. index[i := Number (real idx)]) (data_index d)\<rparr>)"

text \<open>
  \<open>getAtomData\<close>. Without an atom set in the parameters and in the structure,
  \<open>atomSet.size()\<close> throws.
\<close>

definition getAtomData :: "AtomDataParams \<Rightarrow> Structure \<Rightarrow> error + AtomData" where
  "getAtomData p s =
     (case defaults (p_atomSet p) (s_atomSet s) of
        None \<Rightarrow> Inl TypeError
      | Some atomSet \<Rightarrow>
          (let what = p_what p;
               atomCount = Bitset_size atomSet;
               atomData =
                 \<lparr>data_position =
                    (if wanted what what_position then Some (Float32Array (atomCount * 3)) else None),
                  data_color =
                    (if wanted what what_color then Some (Float32Array (atomCount * 3)) else None),
                  data_pickingColor =
                    (if wanted what what_pickingColor then Some (Float32Array (atomCount * 3)) else None),
                  data_radius =
                    (if wanted what what_radius then Some (Float32Array atomCount) else None),
                  data_index =
                    (if wanted what what_index then Some (Float32Array atomCount) else None)\<rparr>
           in Inr (Bitset_forEach atomSet (atomData_each p s) atomData)))"

subsection \<open>Bond data\<close>











text \<open>
  Notions used to state the properties of \<open>connectedTo\<close>: the byte an atom carries in the
  alternate-location column (none when its store has no such column or the index is out
  of range), the same proxy over a store without that column, and squaring.
\<close>

definition ap_altlocCode :: "AtomProxy \<Rightarrow> 8 word option" where
  "ap_altlocCode self =
     (case atom_altloc (ap_atomStore self) of
        None \<Rightarrow> None
      | Some al \<Rightarrow> typed_get al (ap_index self))"

definition withoutAltloc :: "AtomProxy \<Rightarrow> AtomProxy" where
  "withoutAltloc self = self\<lparr>ap_atomStore := (ap_atomStore self)\<lparr>atom_altloc := None\<rparr>\<rparr>"

definition js_sq :: "jsnum \<Rightarrow> jsnum" where
  "js_sq a = js_mul a a"

text \<open>
  The same proxy with everything \<open>isCg\<close> reads of it replaced: the residue index column of
  its atom store, its residue store and its residue types.
\<close>

definition withResidues :: "AtomProxy \<Rightarrow> nat list \<Rightarrow> ResidueStore \<Rightarrow> ResidueMap \<Rightarrow> AtomProxy" where
  "withResidues atom residueIndex residueStore residueMap =
     atom\<lparr>ap_atomStore := (ap_atomStore atom)\<lparr>atom_residueIndex := residueIndex\<rparr>,
          ap_residueStore := residueStore, ap_residueMap := residueMap\<rparr>"

subsection \<open>A small structure for concrete evaluation\<close>

text \<open>
  Six atoms on the x axis, all of one atom type with covalent radius 0.75 (so two of them
  sum to 1.5). Atoms 0 to 3 and 5 belong to a protein residue; atom 4 belongs to a
  coarse-grained residue. Alternate locations: A, A, blank, B, null, null. Atom 5 has a
  NaN x coordinate.
\<close>

definition ex_atomMap :: AtomMap where
  "ex_atomMap = [\<lparr>element = ''C'', atomname = ''CA'', vdw = Number (17 / 10), covalent = Number (3 / 4)\<rparr>]"

definition ex_residueMap :: ResidueMap where
  "ex_residueMap =
     [\<lparr>resname = ''ALA'', hetero = 0, moleculeType = ProteinType, backboneIndexList = [0],
        backboneType = ProteinBackboneType\<rparr>,
      \<lparr>resname = ''ALA'', hetero = 0, moleculeType = ProteinType, backboneIndexList = [0],
        backboneType = CgProteinBackboneType\<rparr>]"

definition ex_residueStore :: ResidueStore where
  "ex_residueStore =
     \<lparr>residue_count = 3, residue_residueTypeId = [0, 1, 0], residue_atomOffset = [0, 4, 5]\<rparr>"

definition ex_atomStore :: AtomStore where
  "ex_atomStore =
     \<lparr>atom_count = 6,
      atom_residueIndex = [0, 0, 0, 0, 1, 2],
      atom_atomTypeId = [0, 0, 0, 0, 0, 0],
      atom_x = [Number 0, Number (8 / 5), Number 2, Number 1, Number 3, NaN],
      atom_y = [Number 0, Number 0, Number 0, Number 0, Number 0, Number 0],
      atom_z = [Number 0, Number 0, Number 0, Number 0, Number 0, Number 0],
      atom_altloc = Some [65, 65, 32, 66, 0, 0]\<rparr>"

definition ex_atom :: "nat \<Rightarrow> AtomProxy" where
  "ex_atom i =
     \<lparr>ap_residueStore = ex_residueStore, ap_atomStore = ex_atomStore,
      ap_residueMap = ex_residueMap, ap_atomMap = ex_atomMap, ap_index = Some i\<rparr>"

text \<open>
  A structure over these stores with three bonds, 0-1, 2-3 and 3-4, of orders 4, 2 and
  3, the atom set
  \<open>{0, 1, 2, 3}\<close> and one named selection, \<open>backbone = {0, 2}\<close>.
\<close>

definition ex_bondStore :: BondStore where
  "ex_bondStore =
     \<lparr>bond_count = 3, bond_atomIndex1 = [0, 2, 3], bond_atomIndex2 = [1, 3, 4],
      bond_bondOrder = [4, 2, 3]\<rparr>"

definition ex_structure :: Structure where
  "ex_structure =
     \<lparr>s_atomSetCache = Map.empty,
      s_atomSetDict = [(''backbone'', [True, False, True, False, False, False])],
      s_bondStore = ex_bondStore,
      s_atomStore = ex_atomStore,
      s_residueStore = ex_residueStore,
      s_atomMap = ex_atomMap,
      s_residueMap = ex_residueMap,
      s_atomSet = Some [True, True, True, True, False, False],
      s_bondSet = None,
      s_atomCount = 0,
      s_bondCount = 0,
      s_boundingBox = ((Number 0, Number 0, Number 0), (Number 0, Number 0, Number 0)),
      s_center = (Number 0, Number 0, Number 0),
      s_tmpAtomProxy = None,
      s_tmpResidueProxy = None,
      s_atomProxyObjects = [],
      s_residueProxyObjects = []\<rparr>"

text \<open>A request for the positions of atoms 1 and 3 only.\<close>

definition ex_atomDataParams :: AtomDataParams where
  "ex_atomDataParams =
     \<lparr>p_what = Some \<lparr>what_position = True, what_color = False, what_pickingColor = False,
                      what_radius = False, what_index = False\<rparr>,
      p_atomSet = Some [False, True, False, True, False, False],
      p_colorMaker = (\<lambda>ap array offset. array),
      p_pickingColorMaker = (\<lambda>ap array offset. array),
      p_radiusFactory = (\<lambda>ap. Number 1)\<rparr>"

text \<open>The atom proxy of a structure set to a given atom index.\<close>

definition atomAt :: "Structure \<Rightarrow> nat \<Rightarrow> AtomProxy" where
  "atomAt s idx = (new_AtomProxy s None)\<lparr>ap_index := Some idx\<rparr>"















section \<open>Properties of the atom proxy\<close>

lemma js_sub_swap: "js_sub a b = js_neg (js_sub b a)"
  by (cases a; cases b) (simp_all add: js_sub_def)

lemma js_mul_neg_neg: "js_mul (js_neg a) (js_neg a) = js_mul a a"
  by (cases a) simp_all

lemma js_sq_sub_swap: "js_mul (js_sub a b) (js_sub a b) = js_mul (js_sub b a) (js_sub b a)"
proof -
  have "js_mul (js_sub a b) (js_sub a b) = js_mul (js_neg (js_sub b a)) (js_neg (js_sub b a))"
    using js_sub_swap [of a b] by simp
  then show ?thesis by (simp add: js_mul_neg_neg)
qed

lemma distSquared_sym: "distSquared a b = distSquared b a"
  unfolding distSquared_def Let_def
  by (simp add: js_sq_sub_swap [of "toNumber (ap_x a)"] js_sq_sub_swap [of "toNumber (ap_y a)"]
      js_sq_sub_swap [of "toNumber (ap_z a)"])

text \<open>
  C10. \<open>distanceTo\<close> is symmetric: for any two atom proxies, over the same or different
  stores, \<open>a.distanceTo(b)\<close> and \<open>b.distanceTo(a)\<close> are the same value.
\<close>

theorem distanceTo_symmetric: "distanceTo a b = distanceTo b a"
  by (simp add: distanceTo_def distSquared_sym [of a b])

lemmas ex_atom_defs =
  ex_atom_def ex_atomStore_def ex_residueStore_def ex_residueMap_def ex_atomMap_def

lemmas ap_read_defs =
  ap_x_def ap_y_def ap_z_def ap_residueIndex_def ap_residueType_def ap_atomType_def
  ap_covalent_def ap_altlocCode_def AtomMap_get_def ResidueMap_get_def typed_get_def
  toNumber_def

lemma ex_atom_altlocCode:
  "ap_altlocCode (ex_atom 0) = Some 65" "ap_altlocCode (ex_atom 1) = Some 65"
  "ap_altlocCode (ex_atom 2) = Some 32" "ap_altlocCode (ex_atom 3) = Some 66"
  "ap_altlocCode (ex_atom 4) = Some 0" "ap_altlocCode (ex_atom 5) = Some 0"
  by (simp_all add: ap_altlocCode_def typed_get_def ex_atom_defs)

lemma ex_atom_isCg:
  "isCg (ex_atom 0) = Inr False" "isCg (ex_atom 1) = Inr False"
  "isCg (ex_atom 2) = Inr False" "isCg (ex_atom 3) = Inr False"
  "isCg (ex_atom 4) = Inr True" "isCg (ex_atom 5) = Inr False"
  by (simp_all add: isCg_def ap_read_defs ex_atom_defs)

lemma ex_atom_covalent: "ap_covalent (ex_atom i) = (if i < 6 then Inr (Number (3 / 4)) else Inl TypeError)"
proof -
  have "i < 6 \<Longrightarrow> i \<in> {0, 1, 2, 3, 4, 5}" by auto
  then show ?thesis
    by (auto simp add: ap_read_defs ex_atom_defs)
qed

lemma ex_atom_distSquared:
  "distSquared (ex_atom 0) (ex_atom 1) = Number (64 / 25)"
  "distSquared (ex_atom 0) (ex_atom 2) = Number 4"
  "distSquared (ex_atom 0) (ex_atom 3) = Number 1"
  "distSquared (ex_atom 0) (ex_atom 4) = Number 9"
  "distSquared (ex_atom 4) (ex_atom 0) = Number 9"
  "distSquared (ex_atom 5) (ex_atom 0) = NaN"
  by (simp_all add: distSquared_def js_sub_def ap_read_defs ex_atom_defs)

lemma ex_atom_altlocBlocks:
  "\<not> altlocBlocks (ex_atom 0) (ex_atom 1)" "\<not> altlocBlocks (ex_atom 0) (ex_atom 2)"
  "altlocBlocks (ex_atom 0) (ex_atom 3)" "\<not> altlocBlocks (ex_atom 0) (ex_atom 4)"
  "\<not> altlocBlocks (ex_atom 4) (ex_atom 0)" "\<not> altlocBlocks (ex_atom 5) (ex_atom 0)"
  by (simp_all add: altlocBlocks_def typed_get_def ex_atom_defs)

lemma js_add_NaN_right: "js_add a NaN = NaN"
  by (cases a) simp_all

lemma js_mul_NaN_right: "js_mul a NaN = NaN"
  by (cases a) simp_all

lemma js_sub_NaN: "js_sub NaN b = NaN" "js_sub a NaN = NaN"
  by (simp_all add: js_sub_def js_add_NaN_right)

lemma isNaN_iff: "isNaN a \<longleftrightarrow> a = NaN"
  by (cases a) simp_all

lemma js_lt_NaN: "js_lt NaN b = False" "js_lt a NaN = False"
  by (cases b; simp) (cases a; simp)

lemma distSquared_NaN_coordinate:
  assumes "toNumber (ap_x a) = NaN \<or> toNumber (ap_y a) = NaN \<or> toNumber (ap_z a) = NaN \<or>
           toNumber (ap_x b) = NaN \<or> toNumber (ap_y b) = NaN \<or> toNumber (ap_z b) = NaN"
  shows "distSquared a b = NaN"
  using assms unfolding distSquared_def Let_def
  by (elim disjE) (simp_all add: js_sub_NaN js_add_NaN_right)

lemma connectedTo_of_NaN:
  assumes "distSquared self atom = NaN"
  shows "connectedTo self atom = Inr False"
  using assms by (simp add: connectedTo_def Let_def js_lt_NaN)

text \<open>
  C8. When the squared distance is NaN, in particular whenever a coordinate of either atom
  is NaN (or undefined), \<open>connectedTo\<close> returns the boolean \<open>false\<close>: it neither throws
  nor takes the coarse-grained shortcut, whatever the two proxies are.
\<close>

theorem connectedTo_NaN_false:
  assumes "isNaN (distSquared self atom) \<or>
           isNaN (toNumber (ap_x self)) \<or> isNaN (toNumber (ap_y self)) \<or>
           isNaN (toNumber (ap_z self)) \<or> isNaN (toNumber (ap_x atom)) \<or>
           isNaN (toNumber (ap_y atom)) \<or> isNaN (toNumber (ap_z atom))"
  shows "connectedTo self atom = Inr False"
proof -
  have "distSquared self atom = NaN"
    using assms distSquared_NaN_coordinate [of self atom] by (auto simp add: isNaN_iff)
  then show ?thesis by (rule connectedTo_of_NaN)
qed

theorem connectedTo_NaN_false_witness:
  "isNaN (toNumber (ap_x (ex_atom 5))) \<and> connectedTo (ex_atom 5) (ex_atom 0) = Inr False"
proof -
  have h: "isNaN (toNumber (ap_x (ex_atom 5)))"
    by (simp add: ap_read_defs ex_atom_defs)
  then show ?thesis
    using connectedTo_NaN_false [of "ex_atom 5" "ex_atom 0"] by simp
qed

lemma withoutAltloc_reads:
  "distSquared (withoutAltloc a) (withoutAltloc b) = distSquared a b"
  "isCg (withoutAltloc a) = isCg a"
  "ap_covalent (withoutAltloc a) = ap_covalent a"
  "\<not> altlocBlocks (withoutAltloc a) b"
  by (simp_all add: withoutAltloc_def distSquared_def isCg_def ap_covalent_def ap_x_def ap_y_def
      ap_z_def ap_residueType_def ap_residueIndex_def ap_atomType_def altlocBlocks_def)

lemma connectedTo_unblocked:
  assumes "\<not> altlocBlocks self atom"
  shows "connectedTo self atom = connectedTo (withoutAltloc self) (withoutAltloc atom)"
  unfolding connectedTo_def withoutAltloc_reads(1-3)
  using assms withoutAltloc_reads(4) [of self "withoutAltloc atom"] by simp

lemma altlocBlocks_codes:
  "altlocBlocks self atom \<longleftrightarrow>
     atom_altloc (ap_atomStore self) \<noteq> None \<and> atom_altloc (ap_atomStore atom) \<noteq> None \<and>
     \<not> (ap_altlocCode self = Some 0 \<or> ap_altlocCode atom = Some 0 \<or>
        ap_altlocCode self = Some 32 \<or> ap_altlocCode atom = Some 32 \<or>
        ap_altlocCode self = ap_altlocCode atom)"
  by (simp add: altlocBlocks_def ap_altlocCode_def Let_def split: option.splits)

text \<open>
  C5. \<open>connectedTo\<close> returns \<open>false\<close>, whatever the distance, when both atoms carry an
  alternate-location code, neither code is 0 (null) or 32 (blank), and the two codes
  differ. When either code is 0 or 32, or the two codes are equal, the check does not
  block: the result is the one the same two atoms give without any alternate-location
  column.
\<close>

theorem connectedTo_altloc:
  "(ap_altlocCode self = Some ta \<and> ap_altlocCode atom = Some aa \<and>
    ta \<noteq> 0 \<and> ta \<noteq> 32 \<and> aa \<noteq> 0 \<and> aa \<noteq> 32 \<and> ta \<noteq> aa
      \<longrightarrow> connectedTo self atom = Inr False) \<and>
   (ap_altlocCode self = Some 0 \<or> ap_altlocCode self = Some 32 \<or>
    ap_altlocCode atom = Some 0 \<or> ap_altlocCode atom = Some 32 \<or>
    ap_altlocCode self = ap_altlocCode atom
      \<longrightarrow> \<not> altlocBlocks self atom \<and>
          connectedTo self atom = connectedTo (withoutAltloc self) (withoutAltloc atom))"
proof (intro conjI impI)
  assume h: "ap_altlocCode self = Some ta \<and> ap_altlocCode atom = Some aa \<and>
    ta \<noteq> 0 \<and> ta \<noteq> 32 \<and> aa \<noteq> 0 \<and> aa \<noteq> 32 \<and> ta \<noteq> aa"
  then have "atom_altloc (ap_atomStore self) \<noteq> None" "atom_altloc (ap_atomStore atom) \<noteq> None"
    by (auto simp add: ap_altlocCode_def split: option.splits)
  with h have "altlocBlocks self atom"
    by (simp add: altlocBlocks_codes)
  then show "connectedTo self atom = Inr False"
    by (simp add: connectedTo_def)
next
  assume h: "ap_altlocCode self = Some 0 \<or> ap_altlocCode self = Some 32 \<or>
    ap_altlocCode atom = Some 0 \<or> ap_altlocCode atom = Some 32 \<or>
    ap_altlocCode self = ap_altlocCode atom"
  then show nb: "\<not> altlocBlocks self atom"
    by (auto simp add: altlocBlocks_codes)
  then show "connectedTo self atom = connectedTo (withoutAltloc self) (withoutAltloc atom)"
    by (rule connectedTo_unblocked)
qed

theorem connectedTo_altloc_witness:
  "ap_altlocCode (ex_atom 0) = Some 65 \<and> ap_altlocCode (ex_atom 3) = Some 66 \<and>
   distSquared (ex_atom 0) (ex_atom 3) = Number 1 \<and>
   connectedTo (ex_atom 0) (ex_atom 3) = Inr False \<and>
   ap_altlocCode (ex_atom 2) = Some 32 \<and>
   \<not> altlocBlocks (ex_atom 0) (ex_atom 2) \<and>
   connectedTo (ex_atom 0) (ex_atom 2) =
     connectedTo (withoutAltloc (ex_atom 0)) (withoutAltloc (ex_atom 2))"
  using connectedTo_altloc [of "ex_atom 0" 65 "ex_atom 3" 66]
    connectedTo_altloc [of "ex_atom 0" 0 "ex_atom 2" 0]
  by (simp add: ex_atom_altlocCode ex_atom_distSquared)

text \<open>
  C4. For a pair that the alternate-location check lets through, whose first atom is not
  coarse-grained, whose squared distance \<open>d2\<close> is not NaN and whose covalent radii sum to
  \<open>r\<close>, \<open>connectedTo\<close> returns true exactly when \<open>(r - 0.5)\<^sup>2 < d2 < (r + 0.3)\<^sup>2\<close>. (Only the
  receiver's classification is consulted, so nothing is assumed about the second atom.)
  The instance checked below has \<open>r = 1.5\<close>: distance 1.6 gives true, distance 2.0 false.
\<close>

theorem connectedTo_covalent_window:
  assumes "\<not> altlocBlocks self atom"
    and "isCg self = Inr False"
    and "\<not> isNaN (distSquared self atom)"
    and "ap_covalent self = Inr c1"
    and "ap_covalent atom = Inr c2"
  shows "connectedTo self atom =
           Inr (js_lt (js_sq (js_sub (js_add c1 c2) (Number (1 / 2)))) (distSquared self atom) \<and>
                js_lt (distSquared self atom) (js_sq (js_add (js_add c1 c2) (Number (3 / 10)))))"
  using assms by (auto simp add: connectedTo_def Let_def js_gt_def js_sq_def)

text \<open>The same window when the radii and the squared distance are finite, over the reals.\<close>

lemma covalent_window_over_reals:
  assumes "\<not> altlocBlocks self atom"
    and "isCg self = Inr False"
    and "distSquared self atom = Number d"
    and "ap_covalent self = Inr (Number r1)"
    and "ap_covalent atom = Inr (Number r2)"
  shows "connectedTo self atom =
           Inr ((r1 + r2 - 1 / 2)\<^sup>2 < d \<and> d < (r1 + r2 + 3 / 10)\<^sup>2)"
  using assms by (auto simp add: connectedTo_def Let_def js_gt_def js_sub_def power2_eq_square)

theorem connectedTo_covalent_window_witness:
  "\<not> altlocBlocks (ex_atom 0) (ex_atom 1) \<and> isCg (ex_atom 0) = Inr False \<and>
   isCg (ex_atom 1) = Inr False \<and>
   ap_covalent (ex_atom 0) = Inr (Number (3 / 4)) \<and> ap_covalent (ex_atom 1) = Inr (Number (3 / 4)) \<and>
   distSquared (ex_atom 0) (ex_atom 1) = Number ((8 / 5)\<^sup>2) \<and>
   connectedTo (ex_atom 0) (ex_atom 1) = Inr True \<and>
   distSquared (ex_atom 0) (ex_atom 2) = Number (2\<^sup>2) \<and>
   connectedTo (ex_atom 0) (ex_atom 2) = Inr False"
  using connectedTo_covalent_window [of "ex_atom 0" "ex_atom 1" "Number (3 / 4)" "Number (3 / 4)"]
    connectedTo_covalent_window [of "ex_atom 0" "ex_atom 2" "Number (3 / 4)" "Number (3 / 4)"]
  by (simp del: One_nat_def add: ex_atom_altlocBlocks ex_atom_isCg ex_atom_covalent
      ex_atom_distSquared js_sq_def js_sub_def power2_eq_square)

text \<open>
  C2, as stated, fails: only the receiver's \<open>isCg\<close> is consulted. With atom 4
  coarse-grained and atom 0 not, 3 apart (squared distance 9, below 64, outside the
  covalent window of radius sum 1.5), atom 0 is not connected to atom 4 while atom 4 is
  connected to atom 0.
\<close>

theorem connectedTo_cg_either_counterexample:
  "isCg (ex_atom 0) = Inr False \<and> isCg (ex_atom 4) = Inr True \<and>
   js_lt (distSquared (ex_atom 0) (ex_atom 4)) (Number 64) \<and>
   js_lt (distSquared (ex_atom 4) (ex_atom 0)) (Number 64) \<and>
   connectedTo (ex_atom 0) (ex_atom 4) = Inr False \<and>
   connectedTo (ex_atom 4) (ex_atom 0) = Inr True"
  by (simp add: connectedTo_def Let_def ex_atom_altlocBlocks ex_atom_isCg ex_atom_covalent
      ex_atom_distSquared js_gt_def js_sub_def)

lemma withResidues_reads:
  "distSquared self (withResidues atom ri rs rm) = distSquared self atom"
  "altlocBlocks self (withResidues atom ri rs rm) = altlocBlocks self atom"
  "ap_covalent (withResidues atom ri rs rm) = ap_covalent atom"
  by (simp_all add: withResidues_def distSquared_def altlocBlocks_def ap_covalent_def ap_x_def
      ap_y_def ap_z_def ap_atomType_def Let_def split: option.splits)

lemma connectedTo_withResidues:
  "connectedTo self (withResidues atom ri rs rm) = connectedTo self atom"
  unfolding connectedTo_def withResidues_reads by (rule refl)

text \<open>
  C2, amended. If the alternate-location check does not block the pair, the receiver (the
  atom \<open>connectedTo\<close> is called on) is coarse-grained and the squared distance is below
  64, then \<open>connectedTo\<close> returns true, whatever the covalent radii. Only the receiver's
  classification is consulted: replacing everything \<open>isCg\<close> reads of the argument atom
  leaves the result as it is, and when the receiver is not coarse-grained the
  covalent-radius window decides, whether the argument atom is coarse-grained or not.
\<close>

theorem connectedTo_cg_self:
  "(\<not> altlocBlocks self atom \<and> isCg self = Inr True \<and>
    js_lt (distSquared self atom) (Number 64)
      \<longrightarrow> connectedTo self atom = Inr True) \<and>
   connectedTo self (withResidues atom residueIndex residueStore residueMap) = connectedTo self atom \<and>
   (\<not> altlocBlocks self atom \<and> isCg self = Inr False \<and> \<not> isNaN (distSquared self atom) \<and>
    ap_covalent self = Inr c1 \<and> ap_covalent atom = Inr c2
      \<longrightarrow> connectedTo self atom =
            Inr (js_lt (js_sq (js_sub (js_add c1 c2) (Number (1 / 2)))) (distSquared self atom) \<and>
                 js_lt (distSquared self atom) (js_sq (js_add (js_add c1 c2) (Number (3 / 10))))))"
proof (intro conjI impI)
  assume "\<not> altlocBlocks self atom \<and> isCg self = Inr True \<and>
    js_lt (distSquared self atom) (Number 64)"
  then show "connectedTo self atom = Inr True"
    by (simp add: connectedTo_def Let_def)
next
  show "connectedTo self (withResidues atom residueIndex residueStore residueMap) =
          connectedTo self atom"
    by (rule connectedTo_withResidues)
next
  assume "\<not> altlocBlocks self atom \<and> isCg self = Inr False \<and>
    \<not> isNaN (distSquared self atom) \<and> ap_covalent self = Inr c1 \<and> ap_covalent atom = Inr c2"
  then show "connectedTo self atom =
      Inr (js_lt (js_sq (js_sub (js_add c1 c2) (Number (1 / 2)))) (distSquared self atom) \<and>
           js_lt (distSquared self atom) (js_sq (js_add (js_add c1 c2) (Number (3 / 10)))))"
    by (auto simp add: connectedTo_def Let_def js_gt_def js_sq_def)
qed

theorem connectedTo_cg_self_witness:
  "\<not> altlocBlocks (ex_atom 4) (ex_atom 0) \<and> isCg (ex_atom 4) = Inr True \<and>
   js_lt (distSquared (ex_atom 4) (ex_atom 0)) (Number 64) \<and>
   connectedTo (ex_atom 4) (ex_atom 0) = Inr True \<and>
   isCg (withResidues (ex_atom 4) [0, 0, 0, 0, 0, 0] ex_residueStore ex_residueMap) = Inr False \<and>
   connectedTo (ex_atom 0) (withResidues (ex_atom 4) [0, 0, 0, 0, 0, 0] ex_residueStore ex_residueMap)
     = connectedTo (ex_atom 0) (ex_atom 4) \<and>
   \<not> altlocBlocks (ex_atom 0) (ex_atom 4) \<and> isCg (ex_atom 0) = Inr False \<and>
   isCg (ex_atom 4) = Inr True \<and>
   distSquared (ex_atom 0) (ex_atom 4) = Number 9 \<and>
   ap_covalent (ex_atom 0) = Inr (Number (3 / 4)) \<and> ap_covalent (ex_atom 4) = Inr (Number (3 / 4)) \<and>
   connectedTo (ex_atom 0) (ex_atom 4) = Inr False"
proof -
  have m: "isCg (withResidues (ex_atom 4) [0, 0, 0, 0, 0, 0] ex_residueStore ex_residueMap) = Inr False"
    by (simp add: withResidues_def isCg_def ap_read_defs ex_atom_defs)
  show ?thesis
    using m
      connectedTo_cg_self [of "ex_atom 4" "ex_atom 0" "[0, 0, 0, 0, 0, 0]" ex_residueStore
        ex_residueMap "Number (3 / 4)" "Number (3 / 4)"]
      connectedTo_cg_self [of "ex_atom 0" "ex_atom 4" "[0, 0, 0, 0, 0, 0]" ex_residueStore
        ex_residueMap "Number (3 / 4)" "Number (3 / 4)"]
    by (simp add: ex_atom_altlocBlocks ex_atom_isCg ex_atom_covalent ex_atom_distSquared js_sq_def
        js_sub_def)
qed

section \<open>Properties of the structure\<close>

lemma Bitset_has_add_unsafe:
  "Bitset_has (Bitset_add_unsafe bs i) k \<longleftrightarrow> Bitset_has bs k \<or> (k = i \<and> i < length bs)"
  by (cases "k = i") (auto simp add: Bitset_has_def Bitset_add_unsafe_def)

lemma length_Bitset_add_unsafe: "length (Bitset_add_unsafe bs i) = length bs"
  by (simp add: Bitset_add_unsafe_def)

lemma getBondSet_loop_has:
  "length bs = n \<Longrightarrow>
   Bitset_has (getBondSet_loop as bst i n bs) k \<longleftrightarrow>
     Bitset_has bs k \<or> (i \<le> k \<and> k < n \<and> bondEndpointsIn as bst k)"
proof (induction as bst i n bs rule: getBondSet_loop.induct)
  case (1 as bst i n bs)
  show ?case
  proof (cases "i < n")
    case True
    let ?bs' = "if bondEndpointsIn as bst i then Bitset_add_unsafe bs i else bs"
    have len: "length ?bs' = n"
      using "1.prems" by (simp add: length_Bitset_add_unsafe)
    have step: "getBondSet_loop as bst i n bs = getBondSet_loop as bst (Suc i) n ?bs'"
      using True by (subst getBondSet_loop.simps) simp
    have "Bitset_has (getBondSet_loop as bst (Suc i) n ?bs') k \<longleftrightarrow>
            Bitset_has ?bs' k \<or> (Suc i \<le> k \<and> k < n \<and> bondEndpointsIn as bst k)"
      using "1.IH" [OF True len] .
    moreover have "Bitset_has ?bs' k \<longleftrightarrow> Bitset_has bs k \<or> (k = i \<and> bondEndpointsIn as bst i)"
      using True "1.prems" by (auto simp add: Bitset_has_add_unsafe)
    ultimately show ?thesis
      unfolding step using True by (auto simp add: Suc_le_eq le_less)
  next
    case False
    then have "getBondSet_loop as bst i n bs = bs"
      by (subst getBondSet_loop.simps) simp
    with False show ?thesis by auto
  qed
qed

lemma Bitset_has_new: "\<not> Bitset_has (new_Bitset n) k"
  by (simp add: Bitset_has_def new_Bitset_def)

lemma length_new_Bitset: "length (new_Bitset n) = n"
  by (simp add: new_Bitset_def)

text \<open>
  C6. With the structure's atom set present, the bit set \<open>getBondSet\<close> returns contains
  a bond index exactly when it is a row of the bond store and both endpoint atoms of that
  bond are in the atom set (the store's count lying within its endpoint columns).
\<close>

theorem getBondSet_iff:
  assumes "s_atomSet s = Some as"
    and "bond_count (s_bondStore s) \<le> length (bond_atomIndex1 (s_bondStore s))"
    and "bond_count (s_bondStore s) \<le> length (bond_atomIndex2 (s_bondStore s))"
  shows "Bitset_has (getBondSet s) i \<longleftrightarrow>
           i < bond_count (s_bondStore s) \<and>
           Bitset_has as (bond_atomIndex1 (s_bondStore s) ! i) \<and>
           Bitset_has as (bond_atomIndex2 (s_bondStore s) ! i)"
proof -
  let ?bst = "s_bondStore s"
  have "Bitset_has (getBondSet s) i \<longleftrightarrow> i < bond_count ?bst \<and> bondEndpointsIn as ?bst i"
    using assms(1) getBondSet_loop_has [OF length_new_Bitset, of as ?bst 0 "bond_count ?bst" i]
    by (simp add: getBondSet_def Let_def Bitset_has_new)
  moreover have "i < bond_count ?bst \<Longrightarrow>
      bondEndpointsIn as ?bst i \<longleftrightarrow>
        Bitset_has as (bond_atomIndex1 ?bst ! i) \<and> Bitset_has as (bond_atomIndex2 ?bst ! i)"
    using assms(2,3) by (simp add: bondEndpointsIn_def typed_get_def)
  ultimately show ?thesis by blast
qed

lemma ex_getBondSet: "getBondSet ex_structure = [True, True, False]"
  by (simp add: getBondSet_def ex_structure_def ex_bondStore_def new_Bitset_def
      bondEndpointsIn_def typed_get_def Bitset_has_def Bitset_add_unsafe_def numeral_3_eq_3
      getBondSet_loop.simps)

theorem getBondSet_iff_witness:
  "s_atomSet ex_structure = Some [True, True, True, True, False, False] \<and>
   Bitset_has (getBondSet ex_structure) 0 \<and>
   Bitset_has (getBondSet ex_structure) 1 \<and>
   \<not> Bitset_has (getBondSet ex_structure) 2"
  using getBondSet_iff [of ex_structure "[True, True, True, True, False, False]" 0]
    getBondSet_iff [of ex_structure "[True, True, True, True, False, False]" 1]
    getBondSet_iff [of ex_structure "[True, True, True, True, False, False]" 2]
  by (simp del: One_nat_def add: ex_structure_def ex_bondStore_def Bitset_has_def)


text \<open>
  C9. On a structure without a temporary atom proxy, \<open>getAtomProxy( i, true )\<close> makes one
  bound to index \<open>i\<close> and records it; on a structure that has one, \<open>getAtomProxy( j, true )\<close>
  returns the reference to that same object and changes nothing, so the object keeps the
  index it had and \<open>j\<close> is ignored. \<open>getResidueProxy\<close> behaves the same way.
\<close>

theorem getProxy_tmp_reuse:
  "(s_tmpAtomProxy s = None \<longrightarrow>
      (case getAtomProxy i True s of
         (r, s1) \<Rightarrow>
           s_tmpAtomProxy s1 = Some r \<and> r < length (s_atomProxyObjects s1) \<and>
           ap_index (s_atomProxyObjects s1 ! r) = i \<and>
           getAtomProxy j True s1 = (r, s1))) \<and>
   (s_tmpAtomProxy s = Some r \<longrightarrow> getAtomProxy j True s = (r, s)) \<and>
   (s_tmpResidueProxy s = None \<longrightarrow>
      (case getResidueProxy i True s of
         (r, s1) \<Rightarrow>
           s_tmpResidueProxy s1 = Some r \<and> r < length (s_residueProxyObjects s1) \<and>
           rp_index (s_residueProxyObjects s1 ! r) = i \<and>
           getResidueProxy j True s1 = (r, s1))) \<and>
   (s_tmpResidueProxy s = Some r \<longrightarrow> getResidueProxy j True s = (r, s))"
  by (simp add: getAtomProxy_def getResidueProxy_def new_AtomProxy_def new_ResidueProxy_def)

theorem getProxy_tmp_reuse_witness:
  "s_tmpAtomProxy ex_structure = None \<and> s_tmpResidueProxy ex_structure = None \<and>
   fst (getAtomProxy (Some 5) True (snd (getAtomProxy (Some 3) True ex_structure))) =
     fst (getAtomProxy (Some 3) True ex_structure) \<and>
   snd (getAtomProxy (Some 5) True (snd (getAtomProxy (Some 3) True ex_structure))) =
     snd (getAtomProxy (Some 3) True ex_structure) \<and>
   ap_index (s_atomProxyObjects (snd (getAtomProxy (Some 3) True ex_structure)) !
     fst (getAtomProxy (Some 3) True ex_structure)) = Some 3 \<and>
   fst (getResidueProxy (Some 2) True (snd (getResidueProxy (Some 1) True ex_structure))) =
     fst (getResidueProxy (Some 1) True ex_structure) \<and>
   snd (getResidueProxy (Some 2) True (snd (getResidueProxy (Some 1) True ex_structure))) =
     snd (getResidueProxy (Some 1) True ex_structure) \<and>
   rp_index (s_residueProxyObjects (snd (getResidueProxy (Some 1) True ex_structure)) !
     fst (getResidueProxy (Some 1) True ex_structure)) = Some 1"
proof -
  have n: "s_tmpAtomProxy ex_structure = None" "s_tmpResidueProxy ex_structure = None"
    by (simp_all add: ex_structure_def)
  obtain r s1 where a: "getAtomProxy (Some 3) True ex_structure = (r, s1)"
    by (cases "getAtomProxy (Some 3) True ex_structure")
  obtain q s2 where b: "getResidueProxy (Some 1) True ex_structure = (q, s2)"
    by (cases "getResidueProxy (Some 1) True ex_structure")
  show ?thesis
    using n a b getProxy_tmp_reuse [of ex_structure "Some 3" "Some 5" 0]
      getProxy_tmp_reuse [of ex_structure "Some 1" "Some 2" 0]
    by simp
qed

text \<open>
  What \<open>refresh\<close> enters in the cache for a named selection: \<open>getAtomSet( false )\<close> is a
  new bit set with no bit set, and its intersection with anything has no bit set.
\<close>

lemma getAtomSet_SelFalse:
  "getAtomSet SelFalse s = (new_Bitset (atom_count (s_atomStore s)), s)"
  by (simp add: getAtomSet_def Let_def)

lemma getAtomSet_SelUndefined:
  "getAtomSet SelUndefined s = (replicate (atom_count (s_atomStore s)) True, s)"
  by (simp add: getAtomSet_def Let_def Bitset_set_all_def new_Bitset_def)

lemma Bitset_intersection_new: "Bitset_intersection (new_Bitset n) other = new_Bitset n"
  by (simp add: Bitset_intersection_def new_Bitset_def list_eq_iff_nth_eq)

lemma refresh_named_eq:
  "refresh_named (name, as) s =
     s\<lparr>s_atomSetCache := (s_atomSetCache s)(''__'' @ name \<mapsto> new_Bitset (atom_count (s_atomStore s)))\<rparr>"
  by (simp add: refresh_named_def getAtomSet_SelFalse Bitset_intersection_new)

lemma fold_refresh_named_atomStore:
  "s_atomStore (fold refresh_named dict s) = s_atomStore s"
  by (induction dict arbitrary: s) (auto simp add: refresh_named_eq)

lemma fold_refresh_named_cache:
  "(name, as) \<in> set dict \<Longrightarrow>
   s_atomSetCache (fold refresh_named dict s) (''__'' @ name) =
     Some (new_Bitset (atom_count (s_atomStore s)))"
proof (induction dict arbitrary: s rule: rev_induct)
  case Nil
  then show ?case by simp
next
  case (snoc e dict)
  obtain n' as' where e: "e = (n', as')" by (cases e)
  show ?case
  proof (cases "n' = name")
    case True
    then show ?thesis
      by (simp add: e refresh_named_eq fold_refresh_named_atomStore)
  next
    case False
    with snoc.prems e have "(name, as) \<in> set dict" by auto
    from snoc.IH [OF this] False show ?thesis
      by (simp add: e refresh_named_eq)
  qed
qed

lemma refresh_named_selection_clear:
  assumes "(name, as) \<in> set (s_atomSetDict s)"
  shows "s_atomSetCache (refresh s) (''__'' @ name) = Some (new_Bitset (atom_count (s_atomStore s)))"
proof -
  define s2 where
    "s2 = s\<lparr>s_atomSetCache := Map.empty, s_atomSet := Some (replicate (atom_count (s_atomStore s)) True)\<rparr>"
  define s3 where "s3 = s2\<lparr>s_bondSet := Some (getBondSet s2)\<rparr>"
  have same: "s_atomSetDict s3 = s_atomSetDict s" "s_atomStore s3 = s_atomStore s"
    by (simp_all add: s3_def s2_def)
  have "s_atomSetCache (refresh s) = s_atomSetCache (fold refresh_named (s_atomSetDict s3) s3)"
    by (simp add: refresh_def Let_def getAtomSet_SelUndefined s3_def s2_def)
  then show ?thesis
    using fold_refresh_named_cache [of name as "s_atomSetDict s3" s3] assms same by simp
qed

text \<open>
  C1. The claim is that after \<open>refresh\<close> the cached bit set of a named selection holds
  the atoms of that selection that are in the full atom set. On the example structure
  the selection \<open>backbone\<close> is \<open>{0, 2}\<close> and the recomputed atom set holds all six atoms,
  so their intersection is \<open>{0, 2}\<close>; \<open>refresh\<close> caches the empty bit set instead, under
  the key \<open>__backbone\<close>.
\<close>

theorem refresh_named_selection_example:
  "s_atomSetDict ex_structure = [(''backbone'', [True, False, True, False, False, False])] \<and>
   s_atomSet (refresh ex_structure) = Some [True, True, True, True, True, True] \<and>
   Bitset_intersection [True, False, True, False, False, False] [True, True, True, True, True, True]
     = [True, False, True, False, False, False] \<and>
   s_atomSetCache (refresh ex_structure) ''__backbone''
     = Some [False, False, False, False, False, False] \<and>
   s_atomSetCache (refresh ex_structure) ''backbone'' = None"
  by (simp add: refresh_def Let_def getAtomSet_SelUndefined refresh_named_eq ex_structure_def
      ex_atomStore_def new_Bitset_def Bitset_intersection_def Bitset_has_def
      numeral_eq_Suc upt_rec)


section \<open>Properties of the bulk extraction\<close>

lemma length_positionToArray: "length (positionToArray ap array offset) = length array"
  by (simp add: positionToArray_def)

lemma positionToArray_below:
  "j < offset \<Longrightarrow> positionToArray ap array offset ! j = array ! j"
  by (simp add: positionToArray_def)

lemma positionToArray_at:
  assumes "offset + 2 < length array"
  shows "positionToArray ap array offset ! offset = toNumber (ap_x ap)"
    and "positionToArray ap array offset ! (offset + 1) = toNumber (ap_y ap)"
    and "positionToArray ap array offset ! (offset + 2) = toNumber (ap_z ap)"
  using assms by (simp_all add: positionToArray_def nth_list_update)

text \<open>The position array alone, under the callback of \<open>getAtomData\<close>.\<close>

lemma forEach_from_position:
  "data_position (forEach_from idxs i (atomData_each p s) d) =
     map_option (forEach_from idxs i (\<lambda>idx i position. positionToArray (atomAt s idx) position (i * 3)))
       (data_position d)"
proof (induction idxs arbitrary: i d)
  case Nil
  then show ?case by (simp add: option.map_ident)
next
  case (Cons idx idxs)
  have step: "data_position (atomData_each p s idx i d) =
      map_option (\<lambda>position. positionToArray (atomAt s idx) position (i * 3)) (data_position d)"
    by (simp add: atomData_each_def Let_def atomAt_def)
  show ?case
    by (simp only: forEach_from.simps Cons.IH step option.map_comp comp_def)
qed

lemma forEach_from_position_length:
  "length (forEach_from idxs i (\<lambda>idx i position. positionToArray (atomAt s idx) position (i * 3)) pos)
     = length pos"
  by (induction idxs arbitrary: i pos) (simp_all add: length_positionToArray)

lemma forEach_from_position_below:
  "j < i * 3 \<Longrightarrow>
   forEach_from idxs i (\<lambda>idx i position. positionToArray (atomAt s idx) position (i * 3)) pos ! j
     = pos ! j"
proof (induction idxs arbitrary: i pos)
  case Nil
  then show ?case by simp
next
  case (Cons idx idxs)
  have "j < Suc i * 3" using Cons.prems by simp
  from Cons.IH [OF this] Cons.prems show ?case
    by (simp add: positionToArray_below)
qed

lemma forEach_from_position_nth:
  assumes "k < length idxs" and "(i + length idxs) * 3 \<le> length pos"
  shows "forEach_from idxs i (\<lambda>idx i position. positionToArray (atomAt s idx) position (i * 3)) pos
           ! ((i + k) * 3) = toNumber (ap_x (atomAt s (idxs ! k))) \<and>
         forEach_from idxs i (\<lambda>idx i position. positionToArray (atomAt s idx) position (i * 3)) pos
           ! ((i + k) * 3 + 1) = toNumber (ap_y (atomAt s (idxs ! k))) \<and>
         forEach_from idxs i (\<lambda>idx i position. positionToArray (atomAt s idx) position (i * 3)) pos
           ! ((i + k) * 3 + 2) = toNumber (ap_z (atomAt s (idxs ! k)))"
  using assms
proof (induction idxs arbitrary: i k pos)
  case Nil
  then show ?case by simp
next
  case (Cons idx idxs)
  let ?pos' = "positionToArray (atomAt s idx) pos (i * 3)"
  show ?case
  proof (cases k)
    case 0
    have fit: "i * 3 + 2 < length pos" using Cons.prems(2) by simp
    have below: "i * 3 < Suc i * 3" "i * 3 + 1 < Suc i * 3" "i * 3 + 2 < Suc i * 3" by simp_all
    show ?thesis
      using 0 forEach_from_position_below [OF below(1), of idxs s ?pos']
        forEach_from_position_below [OF below(2), of idxs s ?pos']
        forEach_from_position_below [OF below(3), of idxs s ?pos']
        positionToArray_at [OF fit, of "atomAt s idx"]
      by simp
  next
    case (Suc k')
    have "k' < length idxs" using Cons.prems(1) Suc by simp
    moreover have "(Suc i + length idxs) * 3 \<le> length ?pos'"
      using Cons.prems(2) by (simp add: length_positionToArray)
    ultimately show ?thesis
      using Cons.IH [of k' "Suc i" ?pos'] Suc by simp
  qed
qed

text \<open>
  C7. For every selection bit set \<open>S\<close> (given in the parameters, or the structure's atom
  set by default), \<open>getAtomData\<close> asked for positions returns a position array of length
  \<open>3 * S.size()\<close> whose entries \<open>3k, 3k+1, 3k+2\<close> are the x, y and z of the atom at the
  \<open>k\<close>-th set bit of \<open>S\<close> in ascending order. This holds whichever other channels are
  asked for as well.
\<close>

theorem getAtomData_position:
  assumes "wanted (p_what p) what_position"
    and "defaults (p_atomSet p) (s_atomSet s) = Some S"
  shows "\<exists>d position.
           getAtomData p s = Inr d \<and> data_position d = Some position \<and>
           length position = 3 * Bitset_size S \<and>
           (\<forall>k < Bitset_size S.
              position ! (3 * k) = toNumber (ap_x (atomAt s (Bitset_indices S ! k))) \<and>
              position ! (3 * k + 1) = toNumber (ap_y (atomAt s (Bitset_indices S ! k))) \<and>
              position ! (3 * k + 2) = toNumber (ap_z (atomAt s (Bitset_indices S ! k))))"
proof -
  let ?f = "\<lambda>idx i position. positionToArray (atomAt s idx) position (i * 3)"
  let ?init = "Float32Array (Bitset_size S * 3)"
  let ?pos = "forEach_from (Bitset_indices S) 0 ?f ?init"
  obtain d where d: "getAtomData p s = Inr d" and dp: "data_position d = Some ?pos"
    using assms by (simp add: getAtomData_def Let_def Bitset_forEach_def forEach_from_position)
  have len0: "length ?init = Bitset_size S * 3"
    by (simp add: Float32Array_def)
  have len: "length ?pos = 3 * Bitset_size S"
    by (simp add: forEach_from_position_length len0)
  have nth: "?pos ! (3 * k) = toNumber (ap_x (atomAt s (Bitset_indices S ! k))) \<and>
             ?pos ! (3 * k + 1) = toNumber (ap_y (atomAt s (Bitset_indices S ! k))) \<and>
             ?pos ! (3 * k + 2) = toNumber (ap_z (atomAt s (Bitset_indices S ! k)))"
    if "k < Bitset_size S" for k
  proof -
    have "k < length (Bitset_indices S)" using that by (simp add: Bitset_size_def)
    moreover have "(0 + length (Bitset_indices S)) * 3 \<le> length ?init"
      using len0 by (simp add: Bitset_size_def)
    ultimately show ?thesis
      using forEach_from_position_nth [of k "Bitset_indices S" 0 ?init s]
      by (simp add: mult.commute)
  qed
  show ?thesis
    using d dp len nth by blast
qed

lemma ex_indices: "Bitset_indices [False, True, False, True, False, False] = [1, 3]"
  by code_simp

theorem getAtomData_position_witness:
  "wanted (p_what ex_atomDataParams) what_position \<and>
   defaults (p_atomSet ex_atomDataParams) (s_atomSet ex_structure)
     = Some [False, True, False, True, False, False] \<and>
   Bitset_size [False, True, False, True, False, False] = 2 \<and>
   (\<exists>d position.
      getAtomData ex_atomDataParams ex_structure = Inr d \<and> data_position d = Some position \<and>
      length position = 6 \<and>
      position ! 0 = Number (8 / 5) \<and> position ! 1 = Number 0 \<and> position ! 2 = Number 0 \<and>
      position ! 3 = Number 1 \<and> position ! 4 = Number 0 \<and> position ! 5 = Number 0)"
proof -
  let ?S = "[False, True, False, True, False, False]"
  have w: "wanted (p_what ex_atomDataParams) what_position"
    by (simp add: ex_atomDataParams_def wanted_def)
  have a: "defaults (p_atomSet ex_atomDataParams) (s_atomSet ex_structure) = Some ?S"
    by (simp add: ex_atomDataParams_def defaults_def)
  have n: "Bitset_size ?S = 2"
    by (simp add: Bitset_size_def ex_indices)
  have c1: "toNumber (ap_x (atomAt ex_structure 1)) = Number (8 / 5)"
    "toNumber (ap_y (atomAt ex_structure 1)) = Number 0"
    "toNumber (ap_z (atomAt ex_structure 1)) = Number 0"
    by (simp_all add: atomAt_def new_AtomProxy_def ex_structure_def ex_atomStore_def ap_read_defs)
  have c3: "toNumber (ap_x (atomAt ex_structure 3)) = Number 1"
    "toNumber (ap_y (atomAt ex_structure 3)) = Number 0"
    "toNumber (ap_z (atomAt ex_structure 3)) = Number 0"
    by (simp_all add: atomAt_def new_AtomProxy_def ex_structure_def ex_atomStore_def ap_read_defs)
  obtain d position where d: "getAtomData ex_atomDataParams ex_structure = Inr d"
    and p: "data_position d = Some position" "length position = 3 * Bitset_size ?S"
    and k: "\<forall>k < Bitset_size ?S.
              position ! (3 * k) = toNumber (ap_x (atomAt ex_structure (Bitset_indices ?S ! k))) \<and>
              position ! (3 * k + 1) = toNumber (ap_y (atomAt ex_structure (Bitset_indices ?S ! k))) \<and>
              position ! (3 * k + 2) = toNumber (ap_z (atomAt ex_structure (Bitset_indices ?S ! k)))"
    using getAtomData_position [OF w a] by blast
  have "0 < Bitset_size ?S" "1 < Bitset_size ?S" using n by simp_all
  from k [rule_format, OF this(1)] k [rule_format, OF this(2)]
  have "position ! 0 = Number (8 / 5) \<and> position ! 1 = Number 0 \<and> position ! 2 = Number 0 \<and>
        position ! 3 = Number 1 \<and> position ! 4 = Number 0 \<and> position ! 5 = Number 0"
    using c1 c3 by (simp add: ex_indices numeral_2_eq_2)
  with w a n d p show ?thesis by simp
qed


subsection \<open>Properties of the bond data\<close>








































lemma shifted_parallel:
  "subVectors (addVectors (Number x2, Number y2, Number z2) (Number vx, Number vy, Number vz))
              (addVectors (Number x1, Number y1, Number z1) (Number vx, Number vy, Number vz)) =
   subVectors (Number x2, Number y2, Number z2) (Number x1, Number y1, Number z1)"
  "subVectors (subVectors (Number x2, Number y2, Number z2) (Number vx, Number vy, Number vz))
              (subVectors (Number x1, Number y1, Number z1) (Number vx, Number vy, Number vz)) =
   subVectors (Number x2, Number y2, Number z2) (Number x1, Number y1, Number z1)"
  by (simp_all add: subVectors_def addVectors_def js_sub_def)



end
